theory Spec2Isabelle
  imports Complex_Main
begin

section \<open>The lab timer engine of \<^verbatim>\<open>src/components/LabTimer.tsx\<close>\<close>

text \<open>
  The component keeps a list of \<^verbatim>\<open>Timer\<close> objects in React state and changes it only
  through functional updaters \<^verbatim>\<open>setTimers(prev => ...)\<close>, which React applies one after
  the other. Each updater is embedded as a function from the previous list to the next one,
  and the callback it maps over the list as a function on one timer.

  Numbers. A JavaScript \<^verbatim>\<open>number\<close> is a double. All numbers the engine handles are
  millisecond counts: \<^verbatim>\<open>Date.now()\<close> is an integer, the presets are integers, and the
  target input delivers \<^verbatim>\<open>parseFloat(...) || 0\<close>, so never \<^verbatim>\<open>NaN\<close>. They are
  modelled by exact rationals; rounding, \<^verbatim>\<open>NaN\<close> and the infinities are outside the model.

  Clock. \<^verbatim>\<open>Date.now()\<close> is read inside the callbacks; the embedding takes the reading
  as the parameter \<open>now\<close>, one reading for one updater run.
\<close>

type_synonym number = rat

datatype timer_mode = Stopwatch | Countdown

text \<open>
  \<^verbatim>\<open>interface Timer\<close> (lines 18-31). The field \<^verbatim>\<open>id\<close> is called \<open>timer_id\<close> here,
  \<^verbatim>\<open>number | null\<close> is \<open>number option\<close> with \<open>None\<close> for \<^verbatim>\<open>null\<close>.
\<close>

record timer =
  timer_id :: string
  name :: string
  time :: number
  isRunning :: bool
  mode :: timer_mode
  targetDuration :: number
  hasCompleted :: bool
  startedAt :: "number option"
  pausedAt :: "number option"
  endTime :: "number option"
  accumulatedTime :: number

text \<open>
  The source tests the nullable timestamps by truthiness (\<^verbatim>\<open>if (timer.startedAt)\<close>,
  \<^verbatim>\<open>&& timer.endTime\<close>): \<^verbatim>\<open>null\<close> is falsy, and so is the number \<^verbatim>\<open>0\<close>.
\<close>

fun truthy :: "number option \<Rightarrow> bool" where
  "truthy None = False"
| "truthy (Some x) = (x \<noteq> 0)"

text \<open>\<^verbatim>\<open>calculateCurrentTime\<close> (lines 151-172).\<close>

definition calculateCurrentTime :: "number \<Rightarrow> timer \<Rightarrow> number" where
  "calculateCurrentTime now timer =
     (if \<not> isRunning timer then time timer
      else if mode timer = Stopwatch then
        (case startedAt timer of
           None \<Rightarrow> accumulatedTime timer
         | Some s \<Rightarrow>
             if s \<noteq> 0 then accumulatedTime timer + (now - s) else accumulatedTime timer)
      else
        (case endTime timer of
           None \<Rightarrow> time timer
         | Some e \<Rightarrow> if e \<noteq> 0 then max 0 (e - now) else time timer))"

text \<open>
  What the engine asks of its surroundings: the alarm (\<^verbatim>\<open>playAlarm(5)\<close>), the system
  notification (\<^verbatim>\<open>showNotification(timer.name)\<close>) and the two toasts. The success toast
  carries the timer's name (its text is the name followed by \<^verbatim>\<open>completed!\<close>), the error
  toast its message.
\<close>

datatype effect =
  PlayAlarm nat
| ShowNotification string
| ToastSuccess string
| ToastError string

text \<open>
  The completion branch, written twice in the source with the same body (lines 185-204 in
  \<^verbatim>\<open>updateTimers\<close>, lines 241-257 in \<^verbatim>\<open>handleVisibilityChange\<close>): its test, the three
  requests it makes, and the object it returns.
\<close>

definition completionDue :: "number \<Rightarrow> timer \<Rightarrow> bool" where
  "completionDue now timer =
     (mode timer = Countdown \<and> calculateCurrentTime now timer = 0
      \<and> \<not> hasCompleted timer \<and> truthy (endTime timer))"

definition completionEffects :: "timer \<Rightarrow> effect list" where
  "completionEffects timer =
     [PlayAlarm 5, ShowNotification (name timer), ToastSuccess (name timer)]"

definition completed :: "timer \<Rightarrow> timer" where
  "completed timer =
     timer\<lparr>time := 0, isRunning := False, hasCompleted := True,
           endTime := None, startedAt := None\<rparr>"

text \<open>
  The callback of \<^verbatim>\<open>updateTimers\<close> (lines 179-213). The first component is what the
  callback contributes to \<^verbatim>\<open>hasChanges\<close>.
\<close>

definition updateTimers_timer :: "number \<Rightarrow> timer \<Rightarrow> bool \<times> effect list \<times> timer" where
  "updateTimers_timer now timer =
     (if \<not> isRunning timer then (False, [], timer)
      else
        (let currentTime = calculateCurrentTime now timer in
         if completionDue now timer then (True, completionEffects timer, completed timer)
         else if \<bar>currentTime - time timer\<bar> \<ge> 10
           then (True, [], timer\<lparr>time := currentTime\<rparr>)
         else (False, [], timer)))"

text \<open>The updater of the animation-frame loop (lines 177-216).\<close>

definition updateTimers :: "number \<Rightarrow> timer list \<Rightarrow> effect list \<times> timer list" where
  "updateTimers now prev =
     (let results = map (updateTimers_timer now) prev;
          hasChanges = list_ex fst results;
          updated = map (\<lambda>r. snd (snd r)) results
      in (concat (map (\<lambda>r. fst (snd r)) results), if hasChanges then updated else prev))"

text \<open>The callback of the visibility handler (lines 235-260).\<close>

definition handleVisibilityChange_timer :: "number \<Rightarrow> timer \<Rightarrow> effect list \<times> timer" where
  "handleVisibilityChange_timer now timer =
     (if \<not> isRunning timer then ([], timer)
      else
        (let currentTime = calculateCurrentTime now timer in
         if completionDue now timer then (completionEffects timer, completed timer)
         else ([], timer\<lparr>time := currentTime\<rparr>)))"

text \<open>
  \<^verbatim>\<open>handleVisibilityChange\<close> (lines 232-263): the pass runs when the page has just become
  visible after having been hidden; the last seen state is remembered in either case.
\<close>

datatype visibility = Visible | Hidden

definition handleVisibilityChange ::
  "visibility \<Rightarrow> number \<Rightarrow> visibility \<times> timer list \<Rightarrow> effect list \<times> visibility \<times> timer list" where
  "handleVisibilityChange visibilityState now st =
     (case st of (lastVisibilityState, prev) \<Rightarrow>
        if visibilityState = Visible \<and> lastVisibilityState = Hidden then
          (let results = map (handleVisibilityChange_timer now) prev
           in (concat (map fst results), visibilityState, map snd results))
        else ([], visibilityState, prev))"

text \<open>
  \<^verbatim>\<open>toggleTimer\<close> (lines 282-318): pause when running, start otherwise. A countdown showing
  \<^verbatim>\<open>0\<close> is not started: the callback raises the error toast and returns the timer as it is.
\<close>

definition toggleTimer_timer :: "string \<Rightarrow> number \<Rightarrow> timer \<Rightarrow> effect list \<times> timer" where
  "toggleTimer_timer i now timer =
     (if timer_id timer \<noteq> i then ([], timer)
      else if isRunning timer then
        (let currentTime = calculateCurrentTime now timer in
         ([], timer\<lparr>isRunning := False, time := currentTime, startedAt := None,
                    pausedAt := Some now,
                    accumulatedTime := (if mode timer = Stopwatch then currentTime else 0)\<rparr>))
      else if mode timer = Countdown \<and> time timer = 0 then
        ([ToastError ''Set a target duration first!''], timer)
      else
        ([], timer\<lparr>isRunning := True, hasCompleted := False, startedAt := Some now,
                   pausedAt := None,
                   endTime := (if mode timer = Countdown then Some (now + time timer) else None)\<rparr>))"

definition toggleTimer :: "string \<Rightarrow> number \<Rightarrow> timer list \<Rightarrow> effect list \<times> timer list" where
  "toggleTimer i now prev =
     (let results = map (toggleTimer_timer i now) prev
      in (concat (map fst results), map snd results))"

text \<open>\<^verbatim>\<open>resetTimer\<close> (lines 320-337).\<close>

definition resetTimer_timer :: "string \<Rightarrow> timer \<Rightarrow> timer" where
  "resetTimer_timer i timer =
     (if timer_id timer = i then
        timer\<lparr>time := (if mode timer = Countdown then targetDuration timer else 0),
              isRunning := False, hasCompleted := False, startedAt := None, pausedAt := None,
              endTime := None, accumulatedTime := 0\<rparr>
      else timer)"

definition resetTimer :: "string \<Rightarrow> timer list \<Rightarrow> timer list" where
  "resetTimer i prev = map (resetTimer_timer i) prev"

text \<open>\<^verbatim>\<open>deleteTimer\<close> (lines 339-341).\<close>

definition deleteTimer :: "string \<Rightarrow> timer list \<Rightarrow> timer list" where
  "deleteTimer i prev = filter (\<lambda>timer. timer_id timer \<noteq> i) prev"

text \<open>\<^verbatim>\<open>toggleMode\<close> (lines 363-382).\<close>

definition toggleMode_timer :: "string \<Rightarrow> timer \<Rightarrow> timer" where
  "toggleMode_timer i timer =
     (if timer_id timer \<noteq> i then timer
      else
        (let newMode = (if mode timer = Stopwatch then Countdown else Stopwatch) in
         timer\<lparr>mode := newMode,
               time := (if newMode = Countdown then targetDuration timer else 0),
               isRunning := False, hasCompleted := False, startedAt := None, pausedAt := None,
               endTime := None, accumulatedTime := 0\<rparr>))"

definition toggleMode :: "string \<Rightarrow> timer list \<Rightarrow> timer list" where
  "toggleMode i prev = map (toggleMode_timer i) prev"

text \<open>\<^verbatim>\<open>setTargetDuration\<close> (lines 384-402). The object it builds has no \<^verbatim>\<open>isRunning\<close>.\<close>

definition setTargetDuration_timer :: "string \<Rightarrow> number \<Rightarrow> timer \<Rightarrow> timer" where
  "setTargetDuration_timer i minutes timer =
     (let ms = minutes * 60 * 1000 in
      if timer_id timer = i then
        timer\<lparr>targetDuration := ms, time := ms, hasCompleted := False, startedAt := None,
              pausedAt := None, endTime := None, accumulatedTime := 0\<rparr>
      else timer)"

definition setTargetDuration :: "string \<Rightarrow> number \<Rightarrow> timer list \<Rightarrow> timer list" where
  "setTargetDuration i minutes prev = map (setTargetDuration_timer i minutes) prev"

text \<open>
  \<^verbatim>\<open>setPreset\<close> (lines 404-422); the conditional spread comes last, so a countdown's
  target is overwritten too.
\<close>

definition setPreset_timer :: "string \<Rightarrow> number \<Rightarrow> timer \<Rightarrow> timer" where
  "setPreset_timer i ms timer =
     (if timer_id timer = i then
        (let t = timer\<lparr>time := ms, isRunning := False, hasCompleted := False,
                       startedAt := None, pausedAt := None, endTime := None,
                       accumulatedTime := 0\<rparr>
         in if mode timer = Countdown then t\<lparr>targetDuration := ms\<rparr> else t)
      else timer)"

definition setPreset :: "string \<Rightarrow> number \<Rightarrow> timer list \<Rightarrow> timer list" where
  "setPreset i ms prev = map (setPreset_timer i ms) prev"

text \<open>
  The ZERO button (lines 651-662): an updater written inline in the markup, with the id of
  the timer the button belongs to.
\<close>

definition zeroTimer_timer :: "string \<Rightarrow> timer \<Rightarrow> timer" where
  "zeroTimer_timer i t =
     (if timer_id t = i then
        t\<lparr>time := 0, isRunning := False, hasCompleted := False, startedAt := None,
          pausedAt := None, endTime := None, accumulatedTime := 0\<rparr>
      else t)"

definition zeroTimer :: "string \<Rightarrow> timer list \<Rightarrow> timer list" where
  "zeroTimer i prev = map (zeroTimer_timer i) prev"

text \<open>The timer the component starts with (lines 34-48).\<close>

definition mainTimer :: timer where
  "mainTimer =
     \<lparr>timer_id = ''1'', name = ''Main Timer'', time = 0, isRunning = False,
      mode = Stopwatch, targetDuration = 0, hasCompleted = False, startedAt = None,
      pausedAt = None, endTime = None, accumulatedTime = 0\<rparr>"

section \<open>Drivers, invariants and sample states\<close>

text \<open>
  The two drivers of a running timer are the animation-frame loop and the visibility
  handler. \<open>observe\<close> is what one observation by a driver does to one timer: the callback
  of the driver's updater.
\<close>

datatype driver = SchedulerLoop | RecoveryHandler

fun observe :: "driver \<Rightarrow> number \<Rightarrow> timer \<Rightarrow> effect list \<times> timer" where
  "observe SchedulerLoop now timer = snd (updateTimers_timer now timer)"
| "observe RecoveryHandler now timer = handleVisibilityChange_timer now timer"

text \<open>
  React runs the updaters one after the other on the same state, so what happens to a
  timer is a list of events: an observation by a driver at a clock reading, or one of the
  user's operations with the id it is aimed at. \<open>apply_event\<close> is the callback of the
  event's updater, \<open>history\<close> runs a list of events and collects the requests made.
\<close>

datatype event =
  Observed driver number
| Toggled string number
| ResetPressed string
| ZeroPressed string
| TargetSet string number
| PresetChosen string number
| ModeToggled string

fun apply_event :: "event \<Rightarrow> timer \<Rightarrow> effect list \<times> timer" where
  "apply_event (Observed d now) timer = observe d now timer"
| "apply_event (Toggled i now) timer = toggleTimer_timer i now timer"
| "apply_event (ResetPressed i) timer = ([], resetTimer_timer i timer)"
| "apply_event (ZeroPressed i) timer = ([], zeroTimer_timer i timer)"
| "apply_event (TargetSet i minutes) timer = ([], setTargetDuration_timer i minutes timer)"
| "apply_event (PresetChosen i ms) timer = ([], setPreset_timer i ms timer)"
| "apply_event (ModeToggled i) timer = ([], toggleMode_timer i timer)"

fun history :: "event list \<Rightarrow> timer \<Rightarrow> effect list \<times> timer" where
  "history [] timer = ([], timer)"
| "history (e # rest) timer =
     (case apply_event e timer of
        (es, timer') \<Rightarrow>
          (case history rest timer' of (es', timer'') \<Rightarrow> (es @ es', timer'')))"

text \<open>
  A start of the timer is a toggle aimed at it while it is not running. A run segment is
  a history without a start: \<open>startFree\<close> follows the timer through the events and
  checks that none of them is one.
\<close>

fun isStart :: "event \<Rightarrow> timer \<Rightarrow> bool" where
  "isStart (Toggled i now) timer = (timer_id timer = i \<and> \<not> isRunning timer)"
| "isStart (Observed d now) timer = False"
| "isStart (ResetPressed i) timer = False"
| "isStart (ZeroPressed i) timer = False"
| "isStart (TargetSet i minutes) timer = False"
| "isStart (PresetChosen i ms) timer = False"
| "isStart (ModeToggled i) timer = False"

fun startFree :: "event list \<Rightarrow> timer \<Rightarrow> bool" where
  "startFree [] timer = True"
| "startFree (e # rest) timer =
     (\<not> isStart e timer \<and> startFree rest (snd (apply_event e timer)))"

text \<open>
  The timestamp invariant in the words of the specification: while running, exactly one
  of \<open>startedAt\<close> and \<open>endTime\<close> is present, chosen by the mode; while not running, both
  are absent.
\<close>

definition specTimestampInvariant :: "timer \<Rightarrow> bool" where
  "specTimestampInvariant timer =
     (if isRunning timer then
        (if mode timer = Stopwatch then startedAt timer \<noteq> None \<and> endTime timer = None
         else endTime timer \<noteq> None \<and> startedAt timer = None)
      else startedAt timer = None \<and> endTime timer = None)"

text \<open>
  What the code keeps instead: a running timer has \<open>startedAt\<close>, and has \<open>endTime\<close>
  exactly when it is a countdown; a timer that is not running has no \<open>startedAt\<close>, and
  has no \<open>endTime\<close> either unless it is a paused countdown (its mode is countdown and
  \<open>pausedAt\<close> is set).
\<close>

definition timestampInvariant :: "timer \<Rightarrow> bool" where
  "timestampInvariant timer =
     (if isRunning timer then
        startedAt timer \<noteq> None \<and> ((endTime timer \<noteq> None) = (mode timer = Countdown))
      else
        startedAt timer = None \<and>
        (if endTime timer = None then True
         else mode timer = Countdown \<and> pausedAt timer \<noteq> None))"

text \<open>
  Sample states, all reached from the initial timer through the operations above: a
  five-second countdown (mode toggle, then a preset), started at clock 1000, then either
  paused at 2000 or seen by the loop at 7000, after its end; the stopwatch after the 30 s
  preset; the stopwatch started at clock 1000; and the round trip of a stopwatch that is
  started at clock 0, paused at 500 and started again at 700. Two more are built on
  them: the running countdown with its \<open>endTime\<close> replaced by \<open>0\<close>, and the running
  countdown after a target of one minute is set.
\<close>

definition countdown5s :: timer where
  "countdown5s = setPreset_timer ''1'' 5000 (toggleMode_timer ''1'' mainTimer)"

definition runningCountdown :: timer where
  "runningCountdown = snd (toggleTimer_timer ''1'' 1000 countdown5s)"

definition pausedCountdown :: timer where
  "pausedCountdown = snd (toggleTimer_timer ''1'' 2000 runningCountdown)"

definition completedCountdown :: timer where
  "completedCountdown = snd (snd (updateTimers_timer 7000 runningCountdown))"


definition runningStopwatch :: timer where
  "runningStopwatch = snd (toggleTimer_timer ''1'' 1000 mainTimer)"




definition twoTimers :: "timer list" where
  "twoTimers = [runningStopwatch, countdown5s\<lparr>timer_id := ''2'', name := ''Incubation''\<rparr>]"

definition threeTimers :: "timer list" where
  "threeTimers = twoTimers @ [pausedCountdown\<lparr>timer_id := ''3'', name := ''Stain''\<rparr>]"

definition endTimeZero :: timer where
  "endTimeZero = runningCountdown\<lparr>endTime := Some 0\<rparr>"

definition retargetedWhileRunning :: timer where
  "retargetedWhileRunning = setTargetDuration_timer ''1'' 1 runningCountdown"

section \<open>Facts about the sample states\<close>

lemma countdown5s_eq:
  "countdown5s =
     \<lparr>timer_id = ''1'', name = ''Main Timer'', time = 5000, isRunning = False,
      mode = Countdown, targetDuration = 5000, hasCompleted = False, startedAt = None,
      pausedAt = None, endTime = None, accumulatedTime = 0\<rparr>"
  by (simp add: countdown5s_def mainTimer_def setPreset_timer_def toggleMode_timer_def)

lemma runningCountdown_eq:
  "runningCountdown =
     \<lparr>timer_id = ''1'', name = ''Main Timer'', time = 5000, isRunning = True,
      mode = Countdown, targetDuration = 5000, hasCompleted = False, startedAt = Some 1000,
      pausedAt = None, endTime = Some 6000, accumulatedTime = 0\<rparr>"
  by (simp add: runningCountdown_def countdown5s_eq toggleTimer_timer_def)

lemma pausedCountdown_eq:
  "pausedCountdown =
     \<lparr>timer_id = ''1'', name = ''Main Timer'', time = 4000, isRunning = False,
      mode = Countdown, targetDuration = 5000, hasCompleted = False, startedAt = None,
      pausedAt = Some 2000, endTime = Some 6000, accumulatedTime = 0\<rparr>"
  by (simp add: pausedCountdown_def runningCountdown_eq toggleTimer_timer_def
      calculateCurrentTime_def)

lemma completedCountdown_eq:
  "completedCountdown =
     \<lparr>timer_id = ''1'', name = ''Main Timer'', time = 0, isRunning = False,
      mode = Countdown, targetDuration = 5000, hasCompleted = True, startedAt = None,
      pausedAt = None, endTime = None, accumulatedTime = 0\<rparr>"
  by (simp add: completedCountdown_def runningCountdown_eq updateTimers_timer_def
      completionDue_def completed_def calculateCurrentTime_def)


lemma runningStopwatch_eq:
  "runningStopwatch =
     \<lparr>timer_id = ''1'', name = ''Main Timer'', time = 0, isRunning = True,
      mode = Stopwatch, targetDuration = 0, hasCompleted = False, startedAt = Some 1000,
      pausedAt = None, endTime = None, accumulatedTime = 0\<rparr>"
  by (simp add: runningStopwatch_def mainTimer_def toggleTimer_timer_def)




lemma twoTimers_eq:
  "twoTimers =
     [\<lparr>timer_id = ''1'', name = ''Main Timer'', time = 0, isRunning = True,
       mode = Stopwatch, targetDuration = 0, hasCompleted = False, startedAt = Some 1000,
       pausedAt = None, endTime = None, accumulatedTime = 0\<rparr>,
      \<lparr>timer_id = ''2'', name = ''Incubation'', time = 5000, isRunning = False,
       mode = Countdown, targetDuration = 5000, hasCompleted = False, startedAt = None,
       pausedAt = None, endTime = None, accumulatedTime = 0\<rparr>]"
  by (simp add: twoTimers_def runningStopwatch_eq countdown5s_eq)

lemma threeTimers_eq:
  "threeTimers =
     [\<lparr>timer_id = ''1'', name = ''Main Timer'', time = 0, isRunning = True,
       mode = Stopwatch, targetDuration = 0, hasCompleted = False, startedAt = Some 1000,
       pausedAt = None, endTime = None, accumulatedTime = 0\<rparr>,
      \<lparr>timer_id = ''2'', name = ''Incubation'', time = 5000, isRunning = False,
       mode = Countdown, targetDuration = 5000, hasCompleted = False, startedAt = None,
       pausedAt = None, endTime = None, accumulatedTime = 0\<rparr>,
      \<lparr>timer_id = ''3'', name = ''Stain'', time = 4000, isRunning = False,
       mode = Countdown, targetDuration = 5000, hasCompleted = False, startedAt = None,
       pausedAt = Some 2000, endTime = Some 6000, accumulatedTime = 0\<rparr>]"
  by (simp add: threeTimers_def twoTimers_eq pausedCountdown_eq)

lemma endTimeZero_eq:
  "endTimeZero =
     \<lparr>timer_id = ''1'', name = ''Main Timer'', time = 5000, isRunning = True,
      mode = Countdown, targetDuration = 5000, hasCompleted = False, startedAt = Some 1000,
      pausedAt = None, endTime = Some 0, accumulatedTime = 0\<rparr>"
  by (simp add: endTimeZero_def runningCountdown_eq)

lemma retargetedWhileRunning_eq:
  "retargetedWhileRunning =
     \<lparr>timer_id = ''1'', name = ''Main Timer'', time = 60000, isRunning = True,
      mode = Countdown, targetDuration = 60000, hasCompleted = False, startedAt = None,
      pausedAt = None, endTime = None, accumulatedTime = 0\<rparr>"
  by (simp add: retargetedWhileRunning_def runningCountdown_eq setTargetDuration_timer_def
      Let_def)

section \<open>The updaters as maps\<close>

text \<open>
  A callback of \<^verbatim>\<open>updateTimers\<close> that does not raise \<^verbatim>\<open>hasChanges\<close> returns the timer
  it was given, so returning \<^verbatim>\<open>prev\<close> instead of \<^verbatim>\<open>updated\<close> changes the identity of
  the array only, not its value: the updater is the map of its callback.
\<close>

lemma updateTimers_timer_unchanged:
  "\<not> fst (updateTimers_timer now timer) \<Longrightarrow>
   snd (snd (updateTimers_timer now timer)) = timer"
  by (simp add: updateTimers_timer_def Let_def split: if_splits)

lemma updateTimers_no_changes:
  "\<not> list_ex fst (map (updateTimers_timer now) prev) \<Longrightarrow>
   map (\<lambda>r. snd (snd r)) (map (updateTimers_timer now) prev) = prev"
  by (induction prev) (simp_all add: updateTimers_timer_unchanged)

lemma updateTimers_eq_map:
  "updateTimers now prev =
     (concat (map (\<lambda>timer. fst (snd (updateTimers_timer now timer))) prev),
      map (\<lambda>timer. snd (snd (updateTimers_timer now timer))) prev)"
  using updateTimers_no_changes [of now prev]
  by (simp add: updateTimers_def Let_def comp_def)

lemma toggleTimer_snd:
  "snd (toggleTimer i now prev) = map (\<lambda>timer. snd (toggleTimer_timer i now timer)) prev"
  by (simp add: toggleTimer_def Let_def comp_def)

lemma handleVisibilityChange_timers:
  "snd (snd (handleVisibilityChange v now (l, prev))) =
     (if v = Visible \<and> l = Hidden
      then map (\<lambda>timer. snd (handleVisibilityChange_timer now timer)) prev
      else prev)"
  by (simp add: handleVisibilityChange_def Let_def comp_def)

text \<open>Both drivers, on the whole list, are \<open>observe\<close> applied to every timer.\<close>

lemma updateTimers_observe:
  "updateTimers now prev =
     (concat (map (\<lambda>timer. fst (observe SchedulerLoop now timer)) prev),
      map (\<lambda>timer. snd (observe SchedulerLoop now timer)) prev)"
  by (simp add: updateTimers_eq_map)

lemma handleVisibilityChange_observe:
  "handleVisibilityChange Visible now (Hidden, prev) =
     (concat (map (\<lambda>timer. fst (observe RecoveryHandler now timer)) prev), Visible,
      map (\<lambda>timer. snd (observe RecoveryHandler now timer)) prev)"
  by (simp add: handleVisibilityChange_def Let_def comp_def)

section \<open>Completion\<close>

lemma observe_not_running:
  "\<not> isRunning timer \<Longrightarrow> observe d now timer = ([], timer)"
  by (cases d) (simp_all add: updateTimers_timer_def handleVisibilityChange_timer_def)

text \<open>
  For a running countdown that has not completed and whose \<open>endTime\<close> is a number \<open>e\<close>
  other than \<open>0\<close>, the completion is due from the clock reading \<open>e\<close> on.
\<close>

lemma completionDue_iff:
  assumes "isRunning timer" and "mode timer = Countdown" and "\<not> hasCompleted timer"
    and "endTime timer = Some e" and "e \<noteq> 0"
  shows "completionDue now timer = (e \<le> now)"
  using assms by (auto simp: completionDue_def calculateCurrentTime_def max_def)

text \<open>The observer that finds the completion due: what it requests and what it commits.\<close>

lemma observe_due:
  assumes "isRunning timer" and "mode timer = Countdown" and "\<not> hasCompleted timer"
    and "endTime timer = Some e" and "e \<noteq> 0" and "e \<le> now"
  shows "observe d now timer =
           ([PlayAlarm 5, ShowNotification (name timer), ToastSuccess (name timer)],
            timer\<lparr>time := 0, isRunning := False, hasCompleted := True,
                  endTime := None, startedAt := None\<rparr>)"
proof -
  have "completionDue now timer"
    using assms by (simp add: completionDue_iff)
  with assms(1) show ?thesis
    by (cases d)
      (simp_all add: updateTimers_timer_def handleVisibilityChange_timer_def
        completionEffects_def completed_def)
qed

text \<open>The guard on \<open>hasCompleted\<close>: a timer that has it set gets no request from a driver.\<close>

lemma observe_hasCompleted:
  "hasCompleted timer \<Longrightarrow> fst (observe d now timer) = []"
  by (cases d)
    (simp_all add: updateTimers_timer_def handleVisibilityChange_timer_def
      completionDue_def Let_def)

text \<open>
  One event that is not a start either makes the requests of a completion and leaves the
  timer not running, or makes no request; it never changes the name, and it does not set
  a timer running.
\<close>

lemma apply_event_name: "name (snd (apply_event e timer)) = name timer"
proof (cases e)
  case (Observed d now)
  then show ?thesis
    by (cases d)
      (simp_all add: updateTimers_timer_def handleVisibilityChange_timer_def completed_def
        Let_def)
next
  case (Toggled i now)
  then show ?thesis by (simp add: toggleTimer_timer_def Let_def)
next
  case (ResetPressed i)
  then show ?thesis by (simp add: resetTimer_timer_def)
next
  case (ZeroPressed i)
  then show ?thesis by (simp add: zeroTimer_timer_def)
next
  case (TargetSet i minutes)
  then show ?thesis by (simp add: setTargetDuration_timer_def Let_def)
next
  case (PresetChosen i ms)
  then show ?thesis by (simp add: setPreset_timer_def Let_def)
next
  case (ModeToggled i)
  then show ?thesis by (simp add: toggleMode_timer_def Let_def)
qed

lemma apply_event_effects:
  assumes "\<not> isStart e timer"
  shows "fst (apply_event e timer) = [] \<or>
         (fst (apply_event e timer)
            = [PlayAlarm 5, ShowNotification (name timer), ToastSuccess (name timer)] \<and>
          \<not> isRunning (snd (apply_event e timer)))"
proof (cases e)
  case (Observed d now)
  then show ?thesis
    by (cases d)
      (simp_all add: updateTimers_timer_def handleVisibilityChange_timer_def
        completionEffects_def completed_def Let_def)
next
  case (Toggled i now)
  with assms show ?thesis by (auto simp: toggleTimer_timer_def Let_def)
qed simp_all

lemma apply_event_stopped:
  assumes "\<not> isStart e timer" and "\<not> isRunning timer"
  shows "fst (apply_event e timer) = [] \<and> \<not> isRunning (snd (apply_event e timer))"
proof (cases e)
  case (Observed d now)
  with assms show ?thesis by (simp add: observe_not_running)
next
  case (Toggled i now)
  with assms show ?thesis by (simp add: toggleTimer_timer_def)
next
  case (ResetPressed i)
  with assms show ?thesis by (simp add: resetTimer_timer_def)
next
  case (ZeroPressed i)
  with assms show ?thesis by (simp add: zeroTimer_timer_def)
next
  case (TargetSet i minutes)
  with assms show ?thesis by (simp add: setTargetDuration_timer_def Let_def)
next
  case (PresetChosen i ms)
  with assms show ?thesis by (simp add: setPreset_timer_def Let_def)
next
  case (ModeToggled i)
  with assms show ?thesis by (simp add: toggleMode_timer_def Let_def)
qed

lemma history_Cons:
  "fst (history (e # rest) timer)
     = fst (apply_event e timer) @ fst (history rest (snd (apply_event e timer)))"
  by (simp split: prod.splits)

text \<open>Without a start, a timer that is not running gets no request at all.\<close>

lemma history_stopped:
  "\<not> isRunning timer \<Longrightarrow> startFree evs timer \<Longrightarrow> fst (history evs timer) = []"
proof (induction evs arbitrary: timer)
  case Nil
  show ?case by simp
next
  case (Cons e evs)
  from Cons.prems have ns: "\<not> isStart e timer"
    and rest: "startFree evs (snd (apply_event e timer))"
    by simp_all
  from apply_event_stopped [OF ns Cons.prems(1)]
  have "fst (apply_event e timer) = []" and "\<not> isRunning (snd (apply_event e timer))"
    by simp_all
  with Cons.IH [OF _ rest] show ?case
    by (simp only: history_Cons) simp
qed

text \<open>
  Over a whole run segment the requests are those of one completion, or none. The
  induction runs over the events with the timer generalised: an event either completes the
  timer, after which it is not running and nothing more is requested, or requests nothing
  and keeps the name.
\<close>

lemma history_effects:
  "startFree evs timer \<Longrightarrow>
   fst (history evs timer) = [] \<or>
   fst (history evs timer)
     = [PlayAlarm 5, ShowNotification (name timer), ToastSuccess (name timer)]"
proof (induction evs arbitrary: timer)
  case Nil
  show ?case by simp
next
  case (Cons e evs)
  from Cons.prems have ns: "\<not> isStart e timer"
    and rest: "startFree evs (snd (apply_event e timer))"
    by simp_all
  from apply_event_effects [OF ns] show ?case
  proof
    assume none: "fst (apply_event e timer) = []"
    have "name (snd (apply_event e timer)) = name timer"
      by (rule apply_event_name)
    with Cons.IH [OF rest] none show ?thesis
      by (simp only: history_Cons) simp
  next
    assume fin: "fst (apply_event e timer)
        = [PlayAlarm 5, ShowNotification (name timer), ToastSuccess (name timer)] \<and>
      \<not> isRunning (snd (apply_event e timer))"
    then have "fst (history evs (snd (apply_event e timer))) = []"
      using rest by (simp add: history_stopped)
    with fin show ?thesis
      by (simp only: history_Cons) simp
  qed
qed

text \<open>
  A race around the end of the countdown started at 1000 for five seconds: a frame before
  the end, a toggle of another timer, the visibility handler and the loop both at the end,
  and the handler again. The alarm, the notification and the toast are requested once.
\<close>

lemma race_example:
  "startFree
     [Observed SchedulerLoop 5990, Toggled ''2'' 5995, Observed RecoveryHandler 6000,
      Observed SchedulerLoop 6000, Observed RecoveryHandler 9000] runningCountdown \<and>
   history
     [Observed SchedulerLoop 5990, Toggled ''2'' 5995, Observed RecoveryHandler 6000,
      Observed SchedulerLoop 6000, Observed RecoveryHandler 9000] runningCountdown
   = ([PlayAlarm 5, ShowNotification ''Main Timer'', ToastSuccess ''Main Timer''],
      completedCountdown)"
  by (simp add: runningCountdown_eq completedCountdown_eq updateTimers_timer_def
      handleVisibilityChange_timer_def toggleTimer_timer_def completionDue_def
      calculateCurrentTime_def completed_def completionEffects_def)

text \<open>
  Claim C1. Over a run segment of a timer, that is any list of events without a start of
  it (observations by the loop and by the visibility handler in any number and order,
  also mixed with pause, reset, zero, preset, target and mode toggle, aimed at it or at
  other timers), the requests made are none, or the alarm, the notification and the
  success toast of this timer once each. The observer that first finds a running
  countdown at or past its \<open>endTime\<close>, whichever driver it is, makes these three requests
  and commits \<open>time = 0\<close>, \<open>isRunning = False\<close>, \<open>hasCompleted = True\<close> and both
  timestamps absent; any later observer returns that state as it is and requests nothing.
  The guard on \<open>hasCompleted\<close> alone already keeps a driver from requesting anything.
\<close>

theorem completion_at_most_once:
  "(startFree evs timer \<longrightarrow>
      fst (history evs timer) = [] \<or>
      fst (history evs timer)
        = [PlayAlarm 5, ShowNotification (name timer), ToastSuccess (name timer)]) \<and>
   (isRunning timer \<and> mode timer = Countdown \<and> \<not> hasCompleted timer \<and>
    endTime timer = Some e \<and> e \<noteq> 0 \<and> e \<le> now \<longrightarrow>
      observe d now timer
        = ([PlayAlarm 5, ShowNotification (name timer), ToastSuccess (name timer)],
           timer\<lparr>time := 0, isRunning := False, hasCompleted := True,
                 endTime := None, startedAt := None\<rparr>) \<and>
      observe d' now'
          (timer\<lparr>time := 0, isRunning := False, hasCompleted := True,
                 endTime := None, startedAt := None\<rparr>)
        = ([], timer\<lparr>time := 0, isRunning := False, hasCompleted := True,
                     endTime := None, startedAt := None\<rparr>)) \<and>
   (hasCompleted timer \<longrightarrow> fst (observe d now timer) = [])"
proof -
  have a: "fst (history evs timer) = [] \<or>
      fst (history evs timer)
        = [PlayAlarm 5, ShowNotification (name timer), ToastSuccess (name timer)]"
    if "startFree evs timer"
    using that by (rule history_effects)
  have b: "observe d now timer
        = ([PlayAlarm 5, ShowNotification (name timer), ToastSuccess (name timer)],
           timer\<lparr>time := 0, isRunning := False, hasCompleted := True,
                 endTime := None, startedAt := None\<rparr>)"
    if "isRunning timer" "mode timer = Countdown" "\<not> hasCompleted timer"
      "endTime timer = Some e" "e \<noteq> 0" "e \<le> now"
    using that by (rule observe_due)
  have c: "observe d' now'
          (timer\<lparr>time := 0, isRunning := False, hasCompleted := True,
                 endTime := None, startedAt := None\<rparr>)
        = ([], timer\<lparr>time := 0, isRunning := False, hasCompleted := True,
                     endTime := None, startedAt := None\<rparr>)"
    by (rule observe_not_running) simp
  have g: "fst (observe d now timer) = []" if "hasCompleted timer"
    using that by (rule observe_hasCompleted)
  from a b c g show ?thesis by blast
qed

theorem completion_at_most_once_witness:
  "startFree
     [Observed SchedulerLoop 5990, Toggled ''2'' 5995, Observed RecoveryHandler 6000,
      Observed SchedulerLoop 6000, TargetSet ''2'' 3, ResetPressed ''1'']
     runningCountdown \<and>
   (fst (history
      [Observed SchedulerLoop 5990, Toggled ''2'' 5995, Observed RecoveryHandler 6000,
       Observed SchedulerLoop 6000, TargetSet ''2'' 3, ResetPressed ''1'']
      runningCountdown) = [] \<or>
    fst (history
      [Observed SchedulerLoop 5990, Toggled ''2'' 5995, Observed RecoveryHandler 6000,
       Observed SchedulerLoop 6000, TargetSet ''2'' 3, ResetPressed ''1'']
      runningCountdown)
      = [PlayAlarm 5, ShowNotification (name runningCountdown),
         ToastSuccess (name runningCountdown)]) \<and>
   isRunning runningCountdown \<and> mode runningCountdown = Countdown \<and>
   \<not> hasCompleted runningCountdown \<and> endTime runningCountdown = Some 6000 \<and>
   observe RecoveryHandler 7000 runningCountdown
     = ([PlayAlarm 5, ShowNotification (name runningCountdown),
         ToastSuccess (name runningCountdown)],
        runningCountdown\<lparr>time := 0, isRunning := False, hasCompleted := True,
                          endTime := None, startedAt := None\<rparr>) \<and>
   observe SchedulerLoop 7016
       (runningCountdown\<lparr>time := 0, isRunning := False, hasCompleted := True,
                          endTime := None, startedAt := None\<rparr>)
     = ([], runningCountdown\<lparr>time := 0, isRunning := False, hasCompleted := True,
                              endTime := None, startedAt := None\<rparr>) \<and>
   hasCompleted completedCountdown \<and>
   fst (observe SchedulerLoop 7016 completedCountdown) = []"
proof -
  have s: "startFree
     [Observed SchedulerLoop 5990, Toggled ''2'' 5995, Observed RecoveryHandler 6000,
      Observed SchedulerLoop 6000, TargetSet ''2'' 3, ResetPressed ''1'']
     runningCountdown"
    by (simp add: runningCountdown_eq updateTimers_timer_def
        handleVisibilityChange_timer_def toggleTimer_timer_def completionDue_def
        calculateCurrentTime_def completed_def)
  have h: "isRunning runningCountdown \<and> mode runningCountdown = Countdown \<and>
      \<not> hasCompleted runningCountdown \<and> endTime runningCountdown = Some 6000 \<and>
      (6000::number) \<noteq> 0 \<and> (6000::number) \<le> 7000"
    by (simp add: runningCountdown_eq)
  have k: "hasCompleted completedCountdown"
    by (simp add: completedCountdown_eq)
  from completion_at_most_once
         [of "[Observed SchedulerLoop 5990, Toggled ''2'' 5995, Observed RecoveryHandler 6000,
               Observed SchedulerLoop 6000, TargetSet ''2'' 3, ResetPressed ''1'']"
             runningCountdown 6000 7000 RecoveryHandler SchedulerLoop 7016]
    completion_at_most_once
         [of "[]" completedCountdown 0 7016 SchedulerLoop SchedulerLoop 0]
    s h k
  show ?thesis by blast
qed

section \<open>The time calculator\<close>

text \<open>
  Claim C2, as the code has it. For a countdown with \<open>endTime\<close> a number \<open>e\<close>: while it
  is running and \<open>e\<close> is not \<open>0\<close>, the calculator returns \<open>max 0 (e - now)\<close>, a value that
  is never negative and does not grow with the clock; while it is not running, the
  calculator returns the stored \<open>time\<close>, whatever \<open>e\<close> is.
\<close>

theorem countdown_currentTime:
  assumes "mode timer = Countdown" and "endTime timer = Some e"
  shows "(isRunning timer \<and> e \<noteq> 0 \<longrightarrow>
            calculateCurrentTime now timer = max 0 (e - now) \<and>
            0 \<le> calculateCurrentTime now timer \<and>
            (now \<le> now' \<longrightarrow>
               calculateCurrentTime now' timer \<le> calculateCurrentTime now timer)) \<and>
         (\<not> isRunning timer \<longrightarrow> calculateCurrentTime now timer = time timer)"
  using assms by (auto simp: calculateCurrentTime_def)

theorem countdown_currentTime_witness:
  "mode runningCountdown = Countdown \<and> endTime runningCountdown = Some 6000 \<and>
   isRunning runningCountdown \<and>
   calculateCurrentTime 2000 runningCountdown = 4000 \<and>
   calculateCurrentTime 9000 runningCountdown = 0 \<and>
   calculateCurrentTime 9000 runningCountdown \<le> calculateCurrentTime 2000 runningCountdown \<and>
   mode pausedCountdown = Countdown \<and> endTime pausedCountdown = Some 6000 \<and>
   \<not> isRunning pausedCountdown \<and>
   calculateCurrentTime 3000 pausedCountdown = time pausedCountdown"
proof -
  have r: "mode runningCountdown = Countdown" "endTime runningCountdown = Some 6000"
    by (simp_all add: runningCountdown_eq)
  have r': "isRunning runningCountdown \<and> (6000::number) \<noteq> 0 \<and> (2000::number) \<le> 9000"
    by (simp add: runningCountdown_eq)
  have p: "mode pausedCountdown = Countdown" "endTime pausedCountdown = Some 6000"
    by (simp_all add: pausedCountdown_eq)
  have p': "\<not> isRunning pausedCountdown"
    by (simp add: pausedCountdown_eq)
  from countdown_currentTime [OF r, of 2000 9000] countdown_currentTime [OF r, of 9000 9000]
    countdown_currentTime [OF p, of 3000 3000] r r' p p'
  show ?thesis by simp
qed

text \<open>
  Claim C2 as stated speaks of every countdown with \<open>endTime\<close> present, at every clock
  reading. It fails in two ways. Pausing keeps \<open>endTime\<close> (the pause branch clears
  \<open>startedAt\<close> only), and a timer that is not running yields its \<open>time\<close>: the countdown
  started at 1000 for five seconds and paused at 2000 still has \<open>endTime = 6000\<close> and
  shows 4000 at clock 3000, where the formula gives 3000. And an \<open>endTime\<close> of \<open>0\<close> is
  present but falsy in \<^verbatim>\<open>if (timer.endTime)\<close>: the running countdown with \<open>endTime = 0\<close>
  shows its \<open>time\<close> of 5000 at clock 3000, where the formula gives 0.
\<close>

theorem countdown_endTime_counterexample:
  "mode pausedCountdown = Countdown \<and> endTime pausedCountdown = Some 6000 \<and>
   calculateCurrentTime 3000 pausedCountdown = 4000 \<and>
   calculateCurrentTime 3000 pausedCountdown \<noteq> max 0 (6000 - 3000) \<and>
   mode endTimeZero = Countdown \<and> isRunning endTimeZero \<and> endTime endTimeZero = Some 0 \<and>
   calculateCurrentTime 3000 endTimeZero = 5000 \<and>
   calculateCurrentTime 3000 endTimeZero \<noteq> max 0 (0 - 3000)"
  by (simp add: pausedCountdown_eq endTimeZero_eq calculateCurrentTime_def)




text \<open>
  Claim C9. \<open>calculateCurrentTime\<close> has a value for every timer and every clock reading,
  also outside the states the operations produce: a timer that is not running yields its
  \<open>time\<close>, a running stopwatch without \<open>startedAt\<close> yields \<open>accumulatedTime\<close>, and a
  running countdown without \<open>endTime\<close> yields \<open>time\<close>. The source has no throwing
  branch, and the embedding has none either: every branch returns a number.
\<close>

theorem calculateCurrentTime_total:
  "(\<not> isRunning timer \<longrightarrow> calculateCurrentTime now timer = time timer) \<and>
   (isRunning timer \<and> mode timer = Stopwatch \<and> startedAt timer = None
      \<longrightarrow> calculateCurrentTime now timer = accumulatedTime timer) \<and>
   (isRunning timer \<and> mode timer = Countdown \<and> endTime timer = None
      \<longrightarrow> calculateCurrentTime now timer = time timer)"
  by (simp add: calculateCurrentTime_def)

theorem calculateCurrentTime_total_witness:
  "calculateCurrentTime 5 mainTimer = 0 \<and>
   calculateCurrentTime 5 (mainTimer\<lparr>isRunning := True, accumulatedTime := 7\<rparr>) = 7 \<and>
   calculateCurrentTime 5 (mainTimer\<lparr>isRunning := True, mode := Countdown, time := 9\<rparr>) = 9"
  using calculateCurrentTime_total [of mainTimer 5]
    calculateCurrentTime_total [of "mainTimer\<lparr>isRunning := True, accumulatedTime := 7\<rparr>" 5]
    calculateCurrentTime_total
      [of "mainTimer\<lparr>isRunning := True, mode := Countdown, time := 9\<rparr>" 5]
  by (simp add: mainTimer_def)

section \<open>Start and pause\<close>

text \<open>
  Claim C4, as the code has it. The guard of the start branch reads the displayed
  \<open>time\<close>, not \<open>targetDuration\<close>: starting a countdown that is not running is refused,
  with the error toast and the timer returned as it is, exactly when \<open>time = 0\<close>;
  otherwise no toast is raised and the timer is running afterwards.
\<close>

theorem start_countdown_rejected_iff:
  assumes "timer_id timer = i" and "mode timer = Countdown" and "\<not> isRunning timer"
  shows "(time timer = 0 \<longrightarrow>
            toggleTimer_timer i now timer
              = ([ToastError ''Set a target duration first!''], timer)) \<and>
         (time timer \<noteq> 0 \<longrightarrow>
            fst (toggleTimer_timer i now timer) = [] \<and>
            isRunning (snd (toggleTimer_timer i now timer))) \<and>
         ((snd (toggleTimer_timer i now timer) = timer) = (time timer = 0))"
proof -
  have "snd (toggleTimer_timer i now timer) \<noteq> timer" if "time timer \<noteq> 0"
  proof
    assume "snd (toggleTimer_timer i now timer) = timer"
    then have "isRunning (snd (toggleTimer_timer i now timer)) = isRunning timer"
      by simp
    with assms that show False
      by (simp add: toggleTimer_timer_def)
  qed
  with assms show ?thesis
    by (auto simp: toggleTimer_timer_def)
qed

theorem start_countdown_rejected_iff_witness:
  "timer_id completedCountdown = ''1'' \<and> mode completedCountdown = Countdown \<and>
   \<not> isRunning completedCountdown \<and> time completedCountdown = 0 \<and>
   toggleTimer_timer ''1'' 9000 completedCountdown
     = ([ToastError ''Set a target duration first!''], completedCountdown) \<and>
   timer_id countdown5s = ''1'' \<and> mode countdown5s = Countdown \<and>
   \<not> isRunning countdown5s \<and> time countdown5s \<noteq> 0 \<and>
   fst (toggleTimer_timer ''1'' 1000 countdown5s) = [] \<and>
   isRunning (snd (toggleTimer_timer ''1'' 1000 countdown5s))"
proof -
  have a: "timer_id completedCountdown = ''1''" "mode completedCountdown = Countdown"
    "\<not> isRunning completedCountdown"
    by (simp_all add: completedCountdown_eq)
  have b: "timer_id countdown5s = ''1''" "mode countdown5s = Countdown"
    "\<not> isRunning countdown5s"
    by (simp_all add: countdown5s_eq)
  have c: "time completedCountdown = 0" "time countdown5s \<noteq> 0"
    by (simp_all add: completedCountdown_eq countdown5s_eq)
  from start_countdown_rejected_iff [OF a, of 9000]
    start_countdown_rejected_iff [OF b, of 1000] a b c
  show ?thesis by simp
qed

text \<open>
  Claim C4 as stated lets a completed countdown with a target start again. The countdown
  of five seconds that the loop completed has \<open>targetDuration = 5000\<close> and \<open>time = 0\<close>:
  the start is refused and the timer stays as it is.
\<close>

theorem start_completed_countdown_counterexample:
  "mode completedCountdown = Countdown \<and> \<not> isRunning completedCountdown \<and>
   hasCompleted completedCountdown \<and> targetDuration completedCountdown = 5000 \<and>
   toggleTimer_timer ''1'' 9000 completedCountdown
     = ([ToastError ''Set a target duration first!''], completedCountdown)"
  by (simp add: completedCountdown_eq toggleTimer_timer_def)




text \<open>
  The round trip of a stopwatch whose banked time is its displayed time: started at \<open>t0\<close>,
  paused at \<open>t1\<close>, started again at \<open>t2\<close>, read at \<open>t3\<close>, with neither start at clock 0.
  The pause between \<open>t1\<close> and \<open>t2\<close> adds nothing.
\<close>

lemma pause_resume_round_trip:
  assumes "timer_id timer = i" and "mode timer = Stopwatch" and "\<not> isRunning timer"
    and "accumulatedTime timer = time timer" and "t0 \<noteq> 0" and "t2 \<noteq> 0"
  shows "time (snd (toggleTimer_timer i t1 (snd (toggleTimer_timer i t0 timer))))
           = time timer + (t1 - t0) \<and>
         calculateCurrentTime t3
           (snd (toggleTimer_timer i t2
              (snd (toggleTimer_timer i t1 (snd (toggleTimer_timer i t0 timer))))))
           = time timer + (t1 - t0) + (t3 - t2)"
  using assms by (simp add: toggleTimer_timer_def calculateCurrentTime_def Let_def)




section \<open>Setting the target\<close>

text \<open>
  On a timer that is not running, \<open>setTargetDuration\<close> sets \<open>targetDuration\<close> and
  \<open>time\<close> to the minutes times 60 times 1000, clears \<open>hasCompleted\<close> and the timestamps,
  and the timer stays not running.
\<close>

lemma setTargetDuration_not_running:
  assumes "timer_id timer = i" and "\<not> isRunning timer"
  shows "targetDuration (setTargetDuration_timer i minutes timer) = minutes * 60 * 1000 \<and>
         time (setTargetDuration_timer i minutes timer) = minutes * 60 * 1000 \<and>
         \<not> isRunning (setTargetDuration_timer i minutes timer) \<and>
         \<not> hasCompleted (setTargetDuration_timer i minutes timer) \<and>
         startedAt (setTargetDuration_timer i minutes timer) = None \<and>
         pausedAt (setTargetDuration_timer i minutes timer) = None \<and>
         endTime (setTargetDuration_timer i minutes timer) = None"
  using assms by (simp add: setTargetDuration_timer_def Let_def)

text \<open>
  Claim C7 on a running timer. The countdown started at 1000 for five seconds is running,
  shows 5000 and would read 4000 at clock 2000. After a target of one minute is set, its
  displayed time is overwritten with 60000 and both timestamps are gone, but it is still
  marked running: the object \<open>setTargetDuration\<close> builds has no \<^verbatim>\<open>isRunning: false\<close>,
  which \<open>resetTimer\<close>, \<open>setPreset\<close>, \<open>toggleMode\<close> and the ZERO button all write. From
  then on it reads 60000 at every clock reading, and neither driver changes it or
  completes it.
\<close>

theorem setTargetDuration_while_running:
  "isRunning runningCountdown \<and> time runningCountdown = 5000 \<and>
   calculateCurrentTime 2000 runningCountdown = 4000 \<and>
   isRunning retargetedWhileRunning \<and>
   time retargetedWhileRunning = 60000 \<and>
   startedAt retargetedWhileRunning = None \<and> endTime retargetedWhileRunning = None \<and>
   calculateCurrentTime now retargetedWhileRunning = 60000 \<and>
   observe d now retargetedWhileRunning = ([], retargetedWhileRunning)"
  by (cases d)
    (simp_all add: runningCountdown_eq retargetedWhileRunning_eq calculateCurrentTime_def
      updateTimers_timer_def handleVisibilityChange_timer_def completionDue_def)

section \<open>The timestamp invariant\<close>

lemma toggleTimer_timer_inv:
  "timestampInvariant timer \<Longrightarrow> timestampInvariant (snd (toggleTimer_timer i now timer))"
  by (auto simp: toggleTimer_timer_def timestampInvariant_def Let_def split: if_splits)

lemma resetTimer_timer_inv:
  "timestampInvariant timer \<Longrightarrow> timestampInvariant (resetTimer_timer i timer)"
  by (auto simp: resetTimer_timer_def timestampInvariant_def split: if_splits)

lemma zeroTimer_timer_inv:
  "timestampInvariant timer \<Longrightarrow> timestampInvariant (zeroTimer_timer i timer)"
  by (auto simp: zeroTimer_timer_def timestampInvariant_def split: if_splits)

lemma setPreset_timer_inv:
  "timestampInvariant timer \<Longrightarrow> timestampInvariant (setPreset_timer i ms timer)"
  by (auto simp: setPreset_timer_def timestampInvariant_def Let_def split: if_splits)

lemma toggleMode_timer_inv:
  "timestampInvariant timer \<Longrightarrow> timestampInvariant (toggleMode_timer i timer)"
  by (auto simp: toggleMode_timer_def timestampInvariant_def Let_def split: if_splits)

lemma setTargetDuration_timer_inv:
  "timestampInvariant timer \<Longrightarrow> timer_id timer \<noteq> i \<or> \<not> isRunning timer \<Longrightarrow>
   timestampInvariant (setTargetDuration_timer i minutes timer)"
  by (auto simp: setTargetDuration_timer_def timestampInvariant_def Let_def split: if_splits)

lemma updateTimers_timer_inv:
  "timestampInvariant timer \<Longrightarrow>
   timestampInvariant (snd (snd (updateTimers_timer now timer)))"
  by (auto simp: updateTimers_timer_def timestampInvariant_def completed_def Let_def
      split: if_splits)

lemma handleVisibilityChange_timer_inv:
  "timestampInvariant timer \<Longrightarrow>
   timestampInvariant (snd (handleVisibilityChange_timer now timer))"
  by (auto simp: handleVisibilityChange_timer_def timestampInvariant_def completed_def Let_def
      split: if_splits)

lemma list_all_map_inv:
  "list_all P xs \<Longrightarrow> (\<And>x. P x \<Longrightarrow> P (f x)) \<Longrightarrow> list_all P (map f xs)"
  by (induction xs) simp_all

text \<open>
  The operations that stop a timer, and the completion, leave it not running with both
  timestamps absent.
\<close>

lemma stopped_without_timestamps:
  assumes "timer_id timer = i"
  shows "\<not> isRunning (resetTimer_timer i timer) \<and> startedAt (resetTimer_timer i timer) = None
           \<and> endTime (resetTimer_timer i timer) = None"
    and "\<not> isRunning (zeroTimer_timer i timer) \<and> startedAt (zeroTimer_timer i timer) = None
           \<and> endTime (zeroTimer_timer i timer) = None"
    and "\<not> isRunning (setPreset_timer i ms timer) \<and> startedAt (setPreset_timer i ms timer) = None
           \<and> endTime (setPreset_timer i ms timer) = None"
    and "\<not> isRunning (toggleMode_timer i timer) \<and> startedAt (toggleMode_timer i timer) = None
           \<and> endTime (toggleMode_timer i timer) = None"
    and "\<not> isRunning (completed timer) \<and> startedAt (completed timer) = None
           \<and> endTime (completed timer) = None"
  using assms
  by (simp_all add: resetTimer_timer_def zeroTimer_timer_def setPreset_timer_def
      toggleMode_timer_def completed_def Let_def)

text \<open>
  Claim C6, as the code has it. Start and pause, reset, zero, the preset, the mode toggle,
  both drivers, and \<open>setTargetDuration\<close> on a timer that is not running keep, for every
  timer of the list: while running, \<open>startedAt\<close> is present and \<open>endTime\<close> is present
  exactly for a countdown; while not running, \<open>startedAt\<close> is absent, and \<open>endTime\<close> is
  absent too unless the timer is a paused countdown.
\<close>

theorem timestampInvariant_preserved:
  assumes "list_all timestampInvariant prev"
  shows "list_all timestampInvariant (snd (toggleTimer i now prev)) \<and>
         list_all timestampInvariant (resetTimer i prev) \<and>
         list_all timestampInvariant (zeroTimer i prev) \<and>
         list_all timestampInvariant (setPreset i ms prev) \<and>
         list_all timestampInvariant (toggleMode i prev) \<and>
         list_all timestampInvariant (snd (updateTimers now prev)) \<and>
         list_all timestampInvariant (snd (snd (handleVisibilityChange v now (l, prev)))) \<and>
         (list_all (\<lambda>timer. timer_id timer \<noteq> i \<or> \<not> isRunning timer) prev \<longrightarrow>
            list_all timestampInvariant (setTargetDuration i minutes prev))"
proof -
  have 1: "list_all timestampInvariant (snd (toggleTimer i now prev))"
    unfolding toggleTimer_snd using assms toggleTimer_timer_inv by (rule list_all_map_inv)
  have 2: "list_all timestampInvariant (resetTimer i prev)"
    unfolding resetTimer_def using assms resetTimer_timer_inv by (rule list_all_map_inv)
  have 3: "list_all timestampInvariant (zeroTimer i prev)"
    unfolding zeroTimer_def using assms zeroTimer_timer_inv by (rule list_all_map_inv)
  have 4: "list_all timestampInvariant (setPreset i ms prev)"
    unfolding setPreset_def using assms setPreset_timer_inv by (rule list_all_map_inv)
  have 5: "list_all timestampInvariant (toggleMode i prev)"
    unfolding toggleMode_def using assms toggleMode_timer_inv by (rule list_all_map_inv)
  have 6: "list_all timestampInvariant (snd (updateTimers now prev))"
    unfolding updateTimers_eq_map snd_conv
    using assms updateTimers_timer_inv by (rule list_all_map_inv)
  have "list_all timestampInvariant
          (map (\<lambda>timer. snd (handleVisibilityChange_timer now timer)) prev)"
    using assms handleVisibilityChange_timer_inv by (rule list_all_map_inv)
  with assms
  have 7: "list_all timestampInvariant (snd (snd (handleVisibilityChange v now (l, prev))))"
    by (simp add: handleVisibilityChange_timers)
  have 8: "list_all timestampInvariant (setTargetDuration i minutes prev)"
    if "list_all (\<lambda>timer. timer_id timer \<noteq> i \<or> \<not> isRunning timer) prev"
    using assms that unfolding setTargetDuration_def
    by (induction prev) (simp_all add: setTargetDuration_timer_inv)
  from 1 2 3 4 5 6 7 8 show ?thesis by blast
qed

theorem timestampInvariant_preserved_witness:
  "list_all timestampInvariant threeTimers \<and>
   list_all (\<lambda>timer. timer_id timer \<noteq> ''2'' \<or> \<not> isRunning timer) threeTimers \<and>
   list_all timestampInvariant (snd (toggleTimer ''2'' 2000 threeTimers)) \<and>
   list_all timestampInvariant (resetTimer ''2'' threeTimers) \<and>
   list_all timestampInvariant (zeroTimer ''2'' threeTimers) \<and>
   list_all timestampInvariant (setPreset ''2'' 30000 threeTimers) \<and>
   list_all timestampInvariant (toggleMode ''2'' threeTimers) \<and>
   list_all timestampInvariant (snd (updateTimers 2000 threeTimers)) \<and>
   list_all timestampInvariant
     (snd (snd (handleVisibilityChange Visible 2000 (Hidden, threeTimers)))) \<and>
   list_all timestampInvariant (setTargetDuration ''2'' 1 threeTimers)"
proof -
  have h: "list_all timestampInvariant threeTimers"
    by (simp add: threeTimers_eq timestampInvariant_def)
  have g: "list_all (\<lambda>timer. timer_id timer \<noteq> ''2'' \<or> \<not> isRunning timer) threeTimers"
    by (simp add: threeTimers_eq)
  from timestampInvariant_preserved [OF h, of "''2''" 2000 30000 Visible Hidden 1] h g
  show ?thesis by blast
qed

text \<open>
  Claim C6 as stated, with the invariant in the specification's words. The start of a
  countdown sets both timestamps; the pause of a countdown leaves \<open>endTime\<close> in place;
  and \<open>setTargetDuration\<close> on the running stopwatch clears \<open>startedAt\<close> while the timer
  stays marked running.
\<close>

theorem specTimestampInvariant_counterexample:
  "specTimestampInvariant countdown5s \<and>
   \<not> specTimestampInvariant (snd (toggleTimer_timer ''1'' 1000 countdown5s)) \<and>
   \<not> specTimestampInvariant pausedCountdown \<and>
   specTimestampInvariant runningStopwatch \<and>
   \<not> specTimestampInvariant (setTargetDuration_timer ''1'' 1 runningStopwatch)"
  by (simp add: specTimestampInvariant_def countdown5s_eq pausedCountdown_eq
      runningStopwatch_eq toggleTimer_timer_def setTargetDuration_timer_def Let_def)

section \<open>The other timers\<close>

lemma deleteTimer_example:
  "deleteTimer ''1'' twoTimers = [twoTimers ! 1] \<and> deleteTimer ''3'' twoTimers = twoTimers"
  by (simp add: twoTimers_eq deleteTimer_def)

text \<open>
  Claim C10. An operation aimed at one id keeps the length of the list and leaves every
  timer with another id as it was, at its place. \<open>deleteTimer\<close> leaves no timer with the
  id, and the timers with other ids remain, in their order.
\<close>

theorem other_timers_unchanged:
  "length (snd (toggleTimer i now prev)) = length prev \<and>
   length (resetTimer i prev) = length prev \<and>
   length (zeroTimer i prev) = length prev \<and>
   length (setTargetDuration i minutes prev) = length prev \<and>
   length (setPreset i ms prev) = length prev \<and>
   length (toggleMode i prev) = length prev \<and>
   (k < length prev \<and> timer_id (prev ! k) \<noteq> i \<longrightarrow>
      snd (toggleTimer i now prev) ! k = prev ! k \<and>
      resetTimer i prev ! k = prev ! k \<and>
      zeroTimer i prev ! k = prev ! k \<and>
      setTargetDuration i minutes prev ! k = prev ! k \<and>
      setPreset i ms prev ! k = prev ! k \<and>
      toggleMode i prev ! k = prev ! k) \<and>
   list_all (\<lambda>timer. timer_id timer \<noteq> i) (deleteTimer i prev) \<and>
   filter (\<lambda>timer. timer_id timer \<noteq> i) (deleteTimer i prev)
     = filter (\<lambda>timer. timer_id timer \<noteq> i) prev"
proof -
  have len: "length (snd (toggleTimer i now prev)) = length prev"
    "length (resetTimer i prev) = length prev"
    "length (zeroTimer i prev) = length prev"
    "length (setTargetDuration i minutes prev) = length prev"
    "length (setPreset i ms prev) = length prev"
    "length (toggleMode i prev) = length prev"
    by (simp_all add: toggleTimer_snd resetTimer_def zeroTimer_def setTargetDuration_def
        setPreset_def toggleMode_def)
  have frame: "snd (toggleTimer i now prev) ! k = prev ! k \<and>
      resetTimer i prev ! k = prev ! k \<and>
      zeroTimer i prev ! k = prev ! k \<and>
      setTargetDuration i minutes prev ! k = prev ! k \<and>
      setPreset i ms prev ! k = prev ! k \<and>
      toggleMode i prev ! k = prev ! k"
    if "k < length prev" "timer_id (prev ! k) \<noteq> i"
    using that
    by (simp add: toggleTimer_snd resetTimer_def zeroTimer_def setTargetDuration_def
        setPreset_def toggleMode_def toggleTimer_timer_def resetTimer_timer_def
        zeroTimer_timer_def setTargetDuration_timer_def setPreset_timer_def
        toggleMode_timer_def Let_def)
  have del: "list_all (\<lambda>timer. timer_id timer \<noteq> i) (deleteTimer i prev)"
    "filter (\<lambda>timer. timer_id timer \<noteq> i) (deleteTimer i prev)
       = filter (\<lambda>timer. timer_id timer \<noteq> i) prev"
    by (simp_all add: deleteTimer_def list_all_iff)
  from len frame del show ?thesis by blast
qed

theorem other_timers_unchanged_witness:
  "(1::nat) < length twoTimers \<and> timer_id (twoTimers ! 1) \<noteq> ''1'' \<and>
   snd (toggleTimer ''1'' 2000 twoTimers) ! 1 = twoTimers ! 1 \<and>
   resetTimer ''1'' twoTimers ! 1 = twoTimers ! 1 \<and>
   zeroTimer ''1'' twoTimers ! 1 = twoTimers ! 1 \<and>
   setTargetDuration ''1'' 1 twoTimers ! 1 = twoTimers ! 1 \<and>
   setPreset ''1'' 30000 twoTimers ! 1 = twoTimers ! 1 \<and>
   toggleMode ''1'' twoTimers ! 1 = twoTimers ! 1"
proof -
  have h: "(1::nat) < length twoTimers \<and> timer_id (twoTimers ! 1) \<noteq> ''1''"
    by (simp add: twoTimers_eq)
  from other_timers_unchanged [of "''1''" 2000 twoTimers 1 30000 1] h
  show ?thesis by blast
qed

end
